theory Spec2Isabelle
  imports Main "HOL-Library.Word"
begin

section \<open>Frames and the vision library\<close>

text \<open>
  A frame is what \<^verbatim>\<open>cv2.VideoCapture.read\<close> delivers and what the filters pass on: an
  8-bit image, either three channels per pixel in the device's order (blue, green, red)
  or one channel. Rows are lists of pixels, the image is the list of its rows.
\<close>

type_synonym u8 = "8 word"

type_synonym pixel = "u8 \<times> u8 \<times> u8"

datatype frame = Color "pixel list list" | Gray "u8 list list"

text \<open>
  The exceptions the program can meet: \<^verbatim>\<open>cv2.error\<close> (an OpenCV assertion, such as a
  wrong number of channels), \<^verbatim>\<open>AttributeError\<close> (a method called on \<^verbatim>\<open>None\<close>) and
  \<^verbatim>\<open>ValueError\<close> (unpacking a shape of the wrong length).
\<close>

datatype error = CvError | AttributeError | ValueError

type_synonym rect = "int \<times> int \<times> int \<times> int"

text \<open>
  The operations of OpenCV whose results the program only passes on are parameters of the
  model: the luminance of a pixel (\<^verbatim>\<open>COLOR_BGR2GRAY\<close>), the Canny operator, a cascade
  classifier's \<^verbatim>\<open>detectMultiScale\<close> (by cascade file and minimum neighbour count; the
  scale factor is 1.1 at both calls) and \<^verbatim>\<open>cv2.rectangle\<close>.
\<close>

record cv2 =
  bgr2gray :: "pixel \<Rightarrow> u8"
  Canny :: "frame \<Rightarrow> int \<Rightarrow> int \<Rightarrow> error + frame"
  detectMultiScale :: "string \<Rightarrow> frame \<Rightarrow> int \<Rightarrow> error + rect list"
  rectangle :: "frame \<Rightarrow> int \<times> int \<Rightarrow> int \<times> int \<Rightarrow> pixel \<Rightarrow> int \<Rightarrow> frame"

datatype ColorConversionCode = COLOR_BGR2GRAY | COLOR_GRAY2BGR | COLOR_BGR2RGB

text \<open>
  \<^verbatim>\<open>cv2.cvtColor\<close>: each conversion checks the number of channels of its input and raises
  \<^verbatim>\<open>cv2.error\<close> on any other; gray to colour copies the value into the three channels;
  BGR to RGB swaps the first and the third channel.
\<close>

fun cvtColor :: "cv2 \<Rightarrow> frame \<Rightarrow> ColorConversionCode \<Rightarrow> error + frame" where
  "cvtColor cv (Color rows) COLOR_BGR2GRAY = Inr (Gray (map (map (bgr2gray cv)) rows))"
| "cvtColor cv (Gray rows) COLOR_BGR2GRAY = Inl CvError"
| "cvtColor cv (Gray rows) COLOR_GRAY2BGR = Inr (Color (map (map (\<lambda>v. (v, v, v))) rows))"
| "cvtColor cv (Color rows) COLOR_GRAY2BGR = Inl CvError"
| "cvtColor cv (Color rows) COLOR_BGR2RGB = Inr (Color (map (map (\<lambda>(b, g, r). (r, g, b))) rows))"
| "cvtColor cv (Gray rows) COLOR_BGR2RGB = Inl CvError"

text \<open>
  \<^verbatim>\<open>cv2.threshold(src, thresh, maxval, cv2.THRESH_BINARY)\<close> on an 8-bit image: a value
  strictly greater than \<^verbatim>\<open>thresh\<close> becomes \<^verbatim>\<open>maxval\<close> (saturated to 8 bits), every other
  value becomes 0; on several channels, channel by channel.
\<close>

definition saturate_u8 :: "int \<Rightarrow> u8" where
  "saturate_u8 n = word_of_int (max 0 (min 255 n))"

definition thresh_binary :: "int \<Rightarrow> int \<Rightarrow> u8 \<Rightarrow> u8" where
  "thresh_binary thresh maxval v = (if thresh < uint v then saturate_u8 maxval else 0)"

fun cv2_threshold :: "frame \<Rightarrow> int \<Rightarrow> int \<Rightarrow> frame" where
  "cv2_threshold (Gray rows) thresh maxval = Gray (map (map (thresh_binary thresh maxval)) rows)"
| "cv2_threshold (Color rows) thresh maxval =
     Color (map (map (\<lambda>(b, g, r). (thresh_binary thresh maxval b,
                                     thresh_binary thresh maxval g,
                                     thresh_binary thresh maxval r))) rows)"

section \<open>VideoProcessor\<close>

text \<open>
  A \<^verbatim>\<open>cv2.VideoCapture\<close> object: the camera it was made for and whether the device is
  open. Opening can fail without an exception: the object then is not opened.
\<close>

record capture =
  camera :: int
  is_opened :: bool

definition VideoCapture :: "bool \<Rightarrow> int \<Rightarrow> capture" where
  "VideoCapture device_opens camera_id = \<lparr>camera = camera_id, is_opened = device_opens\<rparr>"

definition release :: "capture \<Rightarrow> capture" where
  "release c = c\<lparr>is_opened := False\<rparr>"

text \<open>
  \<^verbatim>\<open>cap.read()\<close>: \<open>grabbed\<close> is what the device has for this read (\<open>None\<close>: nothing).
  A capture that is not open yields nothing. \<open>None\<close> stands for \<^verbatim>\<open>(False, None)\<close>,
  \<open>Some frame\<close> for \<^verbatim>\<open>(True, frame)\<close>.
\<close>

definition read :: "capture \<Rightarrow> frame option \<Rightarrow> frame option" where
  "read c grabbed = (if is_opened c then grabbed else None)"

record VideoProcessor =
  cap :: "capture option"
  timer_active :: bool
  timer_interval :: int
  processing_enabled :: bool
  edge_detection_enabled :: bool
  gray_threshold_enabled :: bool
  face_detection_enabled :: bool
  eye_detection_enabled :: bool
  threshold :: int

definition VideoProcessor_init :: VideoProcessor where
  "VideoProcessor_init =
     \<lparr>cap = None, timer_active = False, timer_interval = 0, processing_enabled = False,
      edge_detection_enabled = False, gray_threshold_enabled = False,
      face_detection_enabled = False, eye_detection_enabled = False, threshold = 127\<rparr>"

definition start_camera :: "bool \<Rightarrow> int \<Rightarrow> VideoProcessor \<Rightarrow> VideoProcessor" where
  "start_camera device_opens camera_id s =
     s\<lparr>cap := Some (VideoCapture device_opens camera_id),
       timer_active := True, timer_interval := 30,
       processing_enabled := False\<rparr>"

definition stop_camera :: "VideoProcessor \<Rightarrow> VideoProcessor" where
  "stop_camera s =
     (let s1 = s\<lparr>timer_active := False\<rparr>
      in case cap s1 of None \<Rightarrow> s1 | Some c \<Rightarrow> s1\<lparr>cap := Some (release c)\<rparr>)"

text \<open>The loop over the detected regions: one outline per region, on the colour frame.\<close>

fun draw_rectangles :: "cv2 \<Rightarrow> frame \<Rightarrow> rect list \<Rightarrow> pixel \<Rightarrow> frame" where
  "draw_rectangles cv frame [] color = frame"
| "draw_rectangles cv frame ((x, y, w, h) # regions) color =
     draw_rectangles cv (rectangle cv frame (x, y) (x + w, y + h) color 2) regions color"

definition process_frame :: "cv2 \<Rightarrow> VideoProcessor \<Rightarrow> frame \<Rightarrow> error + frame" where
  "process_frame cv s frame =
     (if edge_detection_enabled s then
        (case cvtColor cv frame COLOR_BGR2GRAY of
           Inl e \<Rightarrow> Inl e
         | Inr gray_frame \<Rightarrow> Canny cv gray_frame 100 200)
      else if gray_threshold_enabled s then
        (case cvtColor cv frame COLOR_BGR2GRAY of
           Inl e \<Rightarrow> Inl e
         | Inr gray_frame \<Rightarrow>
             cvtColor cv (cv2_threshold gray_frame (threshold s) 255) COLOR_GRAY2BGR)
      else if face_detection_enabled s then
        (case cvtColor cv frame COLOR_BGR2GRAY of
           Inl e \<Rightarrow> Inl e
         | Inr gray_frame \<Rightarrow>
             (case detectMultiScale cv ''haarcascade_frontalface_default.xml'' gray_frame 4 of
                Inl e \<Rightarrow> Inl e
              | Inr faces \<Rightarrow> Inr (draw_rectangles cv frame faces (255, 0, 0))))
      else if eye_detection_enabled s then
        (case cvtColor cv frame COLOR_BGR2GRAY of
           Inl e \<Rightarrow> Inl e
         | Inr gray_frame \<Rightarrow>
             (case detectMultiScale cv ''haarcascade_eye.xml'' gray_frame 5 of
                Inl e \<Rightarrow> Inl e
              | Inr eyes \<Rightarrow> Inr (draw_rectangles cv frame eyes (0, 255, 0))))
      else Inr frame)"

text \<open>
  \<^verbatim>\<open>update_frame\<close> changes no field of the processor; its result is the payload of
  \<^verbatim>\<open>frame_update_signal\<close>, \<open>None\<close> when the signal is not emitted.
\<close>

definition update_frame :: "cv2 \<Rightarrow> frame option \<Rightarrow> VideoProcessor \<Rightarrow> error + frame option" where
  "update_frame cv grabbed s =
     (case cap s of
        None \<Rightarrow> Inl AttributeError
      | Some c \<Rightarrow>
          (case read c grabbed of
             None \<Rightarrow> Inr None
           | Some frame \<Rightarrow>
               if processing_enabled s then
                 (case process_frame cv s frame of
                    Inl e \<Rightarrow> Inl e
                  | Inr frame' \<Rightarrow> Inr (Some frame'))
               else Inr (Some frame)))"

text \<open>
  The timer's \<^verbatim>\<open>timeout\<close> signal is connected to \<^verbatim>\<open>update_frame\<close>; a \<^verbatim>\<open>QTimer\<close> that is
  not active does not fire.
\<close>

definition timer_timeout :: "cv2 \<Rightarrow> frame option \<Rightarrow> VideoProcessor \<Rightarrow> error + frame option" where
  "timer_timeout cv grabbed s = (if timer_active s then update_frame cv grabbed s else Inr None)"

section \<open>MainWindow\<close>

text \<open>
  Of the window, the model keeps the processor, the label's pixmap (\<open>None\<close> until the first
  \<^verbatim>\<open>setPixmap\<close>), the warnings shown with \<^verbatim>\<open>QMessageBox.warning\<close> (title and text) and the
  files written by \<^verbatim>\<open>QPixmap.save\<close>.
\<close>

record MainWindow =
  video_processor :: VideoProcessor
  label_pixmap :: "pixel list list option"
  warnings :: "(string \<times> string) list"
  files :: "(string \<times> pixel list list) list"

definition MainWindow_init :: MainWindow where
  "MainWindow_init =
     \<lparr>video_processor = VideoProcessor_init, label_pixmap = None, warnings = [], files = []\<rparr>"

definition MainWindow_start_camera :: "bool \<Rightarrow> MainWindow \<Rightarrow> MainWindow" where
  "MainWindow_start_camera device_opens w =
     w\<lparr>video_processor := start_camera device_opens 0 (video_processor w)\<rparr>"

definition MainWindow_stop_camera :: "MainWindow \<Rightarrow> MainWindow" where
  "MainWindow_stop_camera w = w\<lparr>video_processor := stop_camera (video_processor w)\<rparr>"

definition update_label :: "cv2 \<Rightarrow> frame \<Rightarrow> MainWindow \<Rightarrow> error + MainWindow" where
  "update_label cv frame w =
     (case (if edge_detection_enabled (video_processor w)
            then cvtColor cv frame COLOR_GRAY2BGR
            else cvtColor cv frame COLOR_BGR2RGB) of
        Inl e \<Rightarrow> Inl e
      | Inr (Gray rows) \<Rightarrow> Inl ValueError
      | Inr (Color rows) \<Rightarrow> Inr (w\<lparr>label_pixmap := Some rows\<rparr>))"

definition enable_edge_detection :: "MainWindow \<Rightarrow> MainWindow" where
  "enable_edge_detection w =
     w\<lparr>video_processor := (video_processor w)
        \<lparr>processing_enabled := True,
         edge_detection_enabled := True,
         gray_threshold_enabled := False,
         face_detection_enabled := False,
         eye_detection_enabled := False\<rparr>\<rparr>"

definition enable_gray_threshold :: "MainWindow \<Rightarrow> MainWindow" where
  "enable_gray_threshold w =
     w\<lparr>video_processor := (video_processor w)
        \<lparr>processing_enabled := True,
         edge_detection_enabled := False,
         gray_threshold_enabled := True,
         face_detection_enabled := False,
         eye_detection_enabled := False\<rparr>\<rparr>"

definition enable_face_detection :: "MainWindow \<Rightarrow> MainWindow" where
  "enable_face_detection w =
     w\<lparr>video_processor := (video_processor w)
        \<lparr>processing_enabled := True,
         edge_detection_enabled := False,
         gray_threshold_enabled := False,
         face_detection_enabled := True,
         eye_detection_enabled := False\<rparr>\<rparr>"

definition enable_eye_detection :: "MainWindow \<Rightarrow> MainWindow" where
  "enable_eye_detection w =
     w\<lparr>video_processor := (video_processor w)
        \<lparr>processing_enabled := True,
         edge_detection_enabled := False,
         gray_threshold_enabled := False,
         face_detection_enabled := False,
         eye_detection_enabled := True\<rparr>\<rparr>"

definition set_threshold :: "int \<Rightarrow> MainWindow \<Rightarrow> MainWindow" where
  "set_threshold v w = w\<lparr>video_processor := (video_processor w)\<lparr>threshold := v\<rparr>\<rparr>"

text \<open>
  \<^verbatim>\<open>save_frame\<close>: \<open>filename\<close> is what the file dialog returns (empty when cancelled),
  \<open>writable\<close> whether \<^verbatim>\<open>QPixmap.save\<close> succeeds; its result is not looked at.
\<close>

definition save_frame :: "string \<Rightarrow> bool \<Rightarrow> MainWindow \<Rightarrow> MainWindow" where
  "save_frame filename writable w =
     (case label_pixmap w of
        None \<Rightarrow> w\<lparr>warnings := warnings w @ [(''Error'', ''No frame to save.'')]\<rparr>
      | Some p \<Rightarrow>
          if filename \<noteq> [] \<and> writable then w\<lparr>files := files w @ [(filename, p)]\<rparr> else w)"

text \<open>
  One tick of the timer, through the two connections \<^verbatim>\<open>timeout \<rightarrow> update_frame\<close> and
  \<^verbatim>\<open>frame_update_signal \<rightarrow> update_label\<close>.
\<close>

definition tick :: "cv2 \<Rightarrow> frame option \<Rightarrow> MainWindow \<Rightarrow> error + MainWindow" where
  "tick cv grabbed w =
     (case timer_timeout cv grabbed (video_processor w) of
        Inl e \<Rightarrow> Inl e
      | Inr None \<Rightarrow> Inr w
      | Inr (Some frame) \<Rightarrow> update_label cv frame w)"

section \<open>Modes\<close>

datatype mode = EdgeDetection | GrayThreshold | FaceDetection | EyeDetection

fun flag :: "mode \<Rightarrow> VideoProcessor \<Rightarrow> bool" where
  "flag EdgeDetection s = edge_detection_enabled s"
| "flag GrayThreshold s = gray_threshold_enabled s"
| "flag FaceDetection s = face_detection_enabled s"
| "flag EyeDetection s = eye_detection_enabled s"

fun enable :: "mode \<Rightarrow> MainWindow \<Rightarrow> MainWindow" where
  "enable EdgeDetection = enable_edge_detection"
| "enable GrayThreshold = enable_gray_threshold"
| "enable FaceDetection = enable_face_detection"
| "enable EyeDetection = enable_eye_detection"

text \<open>
  The filter of each mode, as a function of the frame and the threshold alone, and the
  mode that a set of flags selects: the first of edge detection, grayscale threshold,
  face detection, eye detection whose flag is set.
\<close>

fun apply_filter :: "cv2 \<Rightarrow> int \<Rightarrow> mode \<Rightarrow> frame \<Rightarrow> error + frame" where
  "apply_filter cv t EdgeDetection frame =
     (case cvtColor cv frame COLOR_BGR2GRAY of
        Inl e \<Rightarrow> Inl e
      | Inr g \<Rightarrow> Canny cv g 100 200)"
| "apply_filter cv t GrayThreshold frame =
     (case cvtColor cv frame COLOR_BGR2GRAY of
        Inl e \<Rightarrow> Inl e
      | Inr g \<Rightarrow> cvtColor cv (cv2_threshold g t 255) COLOR_GRAY2BGR)"
| "apply_filter cv t FaceDetection frame =
     (case cvtColor cv frame COLOR_BGR2GRAY of
        Inl e \<Rightarrow> Inl e
      | Inr g \<Rightarrow>
          (case detectMultiScale cv ''haarcascade_frontalface_default.xml'' g 4 of
             Inl e \<Rightarrow> Inl e
           | Inr regions \<Rightarrow> Inr (draw_rectangles cv frame regions (255, 0, 0))))"
| "apply_filter cv t EyeDetection frame =
     (case cvtColor cv frame COLOR_BGR2GRAY of
        Inl e \<Rightarrow> Inl e
      | Inr g \<Rightarrow>
          (case detectMultiScale cv ''haarcascade_eye.xml'' g 5 of
             Inl e \<Rightarrow> Inl e
           | Inr regions \<Rightarrow> Inr (draw_rectangles cv frame regions (0, 255, 0))))"

definition priority :: "mode list" where
  "priority = [EdgeDetection, GrayThreshold, FaceDetection, EyeDetection]"

definition selected_mode :: "VideoProcessor \<Rightarrow> mode option" where
  "selected_mode s = find (\<lambda>m. flag m s) priority"

section \<open>Events\<close>

text \<open>
  What can happen to the window: the buttons, the slider (a \<^verbatim>\<open>QSlider\<close> with range 0 to
  255 keeps its value in that range), the save action with the dialog's answer, and a
  tick of the timer with what the device has to offer. \<open>StartCamera\<close> carries whether
  the device opens.
\<close>

datatype event =
    StartCamera bool
  | StopCamera
  | Enable mode
  | SliderValue int
  | SaveFrame string bool
  | Tick "frame option"

fun handle :: "cv2 \<Rightarrow> event \<Rightarrow> MainWindow \<Rightarrow> error + MainWindow" where
  "handle cv (StartCamera device_opens) w = Inr (MainWindow_start_camera device_opens w)"
| "handle cv StopCamera w = Inr (MainWindow_stop_camera w)"
| "handle cv (Enable m) w = Inr (enable m w)"
| "handle cv (SliderValue v) w = Inr (set_threshold (max 0 (min 255 v)) w)"
| "handle cv (SaveFrame filename writable) w = Inr (save_frame filename writable w)"
| "handle cv (Tick grabbed) w = tick cv grabbed w"

inductive reachable :: "cv2 \<Rightarrow> MainWindow \<Rightarrow> bool" for cv :: cv2 where
  reachable_init: "reachable cv MainWindow_init"
| reachable_step: "reachable cv w \<Longrightarrow> handle cv e w = Inr w' \<Longrightarrow> reachable cv w'"

section \<open>A library instance for concrete inputs\<close>

text \<open>
  To evaluate the model on concrete frames: the luminance with OpenCV's documented weights
  (0.299 red, 0.587 green, 0.114 blue) in 14-bit fixed point, over a scene in which
  Canny finds no edge and the cascades find no region.
\<close>

definition luma_fixed :: "pixel \<Rightarrow> u8" where
  "luma_fixed = (\<lambda>(b, g, r).
     word_of_int ((1868 * uint b + 9617 * uint g + 4899 * uint r + 8192) div 16384))"

definition no_edges :: "frame \<Rightarrow> int \<Rightarrow> int \<Rightarrow> error + frame" where
  "no_edges frame lo hi =
     (case frame of
        Gray rows \<Rightarrow> Inr (Gray (map (map (\<lambda>v. 0)) rows))
      | Color rows \<Rightarrow> Inl CvError)"

definition cv_sample :: cv2 where
  "cv_sample =
     \<lparr>bgr2gray = luma_fixed,
      Canny = no_edges,
      detectMultiScale = (\<lambda>cascade frame min_neighbors. Inr []),
      rectangle = (\<lambda>frame pt1 pt2 color thickness. frame)\<rparr>"

section \<open>Auxiliary facts\<close>

lemmas enable_defs = enable_edge_detection_def enable_gray_threshold_def
  enable_face_detection_def enable_eye_detection_def

lemmas init_defs = MainWindow_init_def VideoProcessor_init_def

lemma selected_mode_cases:
  "selected_mode s =
     (if edge_detection_enabled s then Some EdgeDetection
      else if gray_threshold_enabled s then Some GrayThreshold
      else if face_detection_enabled s then Some FaceDetection
      else if eye_detection_enabled s then Some EyeDetection
      else None)"
  by (simp add: selected_mode_def priority_def)

lemma thresh_binary_255:
  "thresh_binary t 255 v = (if t < uint v then 255 else 0)"
  by (simp add: thresh_binary_def saturate_u8_def)

lemma gray_threshold_pixels:
  "selected_mode s = Some GrayThreshold \<Longrightarrow>
   process_frame cv s (Color rows) =
     Inr (Color (map (map (\<lambda>p. if threshold s < uint (bgr2gray cv p)
                                then (255, 255, 255) else (0, 0, 0))) rows))"
  by (auto simp: selected_mode_cases process_frame_def thresh_binary_255 comp_def
           split: if_splits)

lemma enable_keeps:
  "cap (video_processor (enable m w)) = cap (video_processor w)"
  "timer_active (video_processor (enable m w)) = timer_active (video_processor w)"
  "label_pixmap (enable m w) = label_pixmap w"
  "warnings (enable m w) = warnings w"
  "files (enable m w) = files w"
  by (cases m; simp add: enable_defs)+

lemma update_label_keeps:
  "update_label cv frame w = Inr w' \<Longrightarrow> video_processor w' = video_processor w"
  by (auto simp: update_label_def split: sum.splits frame.splits if_splits)

lemma tick_keeps:
  "tick cv grabbed w = Inr w' \<Longrightarrow> video_processor w' = video_processor w"
  by (auto simp: tick_def split: sum.splits option.splits dest: update_label_keeps)

text \<open>
  The outlines are the only change a detection mode makes: whatever every call of
  \<^verbatim>\<open>cv2.rectangle\<close> preserves, the loop over the regions preserves.
\<close>

lemma draw_rectangles_preserves:
  assumes "\<And>f pt1 pt2 c t. P f \<Longrightarrow> P (rectangle cv f pt1 pt2 c t)"
  shows "P frame \<Longrightarrow> P (draw_rectangles cv frame regions color)"
proof (induction regions arbitrary: frame)
  case Nil
  then show ?case by simp
next
  case (Cons r regions)
  obtain x y w h where r: "r = (x, y, w, h)" by (cases r)
  from Cons.prems have "P (rectangle cv frame (x, y) (x + w, y + h) color 2)"
    by (rule assms)
  then show ?case by (simp add: r Cons.IH)
qed

text \<open>
  An invariant of the window: while the timer is active there is a capture object, so
  the \<^verbatim>\<open>self.cap.read()\<close> of a tick never meets \<^verbatim>\<open>None\<close>.
\<close>

lemma handle_timer_cap:
  assumes "handle cv e w = Inr w'"
    and "timer_active (video_processor w) \<Longrightarrow> cap (video_processor w) \<noteq> None"
    and "timer_active (video_processor w')"
  shows "cap (video_processor w') \<noteq> None"
proof (cases e)
  case (Tick grabbed)
  with assms show ?thesis by (auto dest: tick_keeps)
next
  case (Enable m)
  with assms show ?thesis by (auto simp: enable_keeps)
qed (use assms in \<open>auto simp: MainWindow_start_camera_def start_camera_def
       MainWindow_stop_camera_def stop_camera_def set_threshold_def save_frame_def Let_def
       split: option.splits if_splits\<close>)

lemma timer_has_cap:
  "reachable cv w \<Longrightarrow> timer_active (video_processor w) \<Longrightarrow> cap (video_processor w) \<noteq> None"
proof (induction rule: reachable.induct)
  case reachable_init
  then show ?case by (simp add: init_defs)
next
  case (reachable_step w e w')
  from reachable_step.hyps(2) reachable_step.IH reachable_step.prems show ?case
    by (rule handle_timer_cap)
qed

text \<open>The label's pixmap is set by a tick that delivers a frame and by nothing else.\<close>

lemma pixmap_set_only_by_tick:
  "handle cv e w = Inr w' \<Longrightarrow> (\<And>grabbed. e \<noteq> Tick grabbed) \<Longrightarrow> label_pixmap w' = label_pixmap w"
  by (cases e) (auto simp: MainWindow_start_camera_def MainWindow_stop_camera_def
      set_threshold_def save_frame_def enable_keeps split: option.splits if_splits)

section \<open>Grayscale threshold\<close>

text \<open>
  C1, as the code has it. In grayscale-threshold mode (the threshold flag set, the edge
  flag not), a three-channel frame is turned into its luminance, every pixel whose
  luminance is strictly greater than the threshold becomes 255 in all three channels and
  every other pixel becomes 0 in all three channels. In particular a frame whose luminance
  is 255 everywhere comes out all 255 when the threshold is below 255, and a frame whose
  luminance is 0 everywhere comes out all 0 when the threshold is not negative.
\<close>

theorem gray_threshold_strict:
  "selected_mode s = Some GrayThreshold \<longrightarrow>
     process_frame cv s (Color rows) =
       Inr (Color (map (map (\<lambda>p. if threshold s < uint (bgr2gray cv p)
                                  then (255, 255, 255) else (0, 0, 0))) rows))
     \<and> (threshold s < 255 \<and> (\<forall>row \<in> set rows. \<forall>p \<in> set row. bgr2gray cv p = 255) \<longrightarrow>
          process_frame cv s (Color rows) = Inr (Color (map (map (\<lambda>p. (255, 255, 255))) rows)))
     \<and> (0 \<le> threshold s \<and> (\<forall>row \<in> set rows. \<forall>p \<in> set row. bgr2gray cv p = 0) \<longrightarrow>
          process_frame cv s (Color rows) = Inr (Color (map (map (\<lambda>p. (0, 0, 0))) rows)))"
proof (intro impI conjI)
  assume m: "selected_mode s = Some GrayThreshold"
  show "process_frame cv s (Color rows) =
       Inr (Color (map (map (\<lambda>p. if threshold s < uint (bgr2gray cv p)
                                  then (255, 255, 255) else (0, 0, 0))) rows))"
    by (rule gray_threshold_pixels [OF m])
next
  assume m: "selected_mode s = Some GrayThreshold"
    and h: "threshold s < 255 \<and> (\<forall>row \<in> set rows. \<forall>p \<in> set row. bgr2gray cv p = 255)"
  then show "process_frame cv s (Color rows) = Inr (Color (map (map (\<lambda>p. (255, 255, 255))) rows))"
    by (simp add: gray_threshold_pixels [OF m] cong: map_cong)
next
  assume m: "selected_mode s = Some GrayThreshold"
    and h: "0 \<le> threshold s \<and> (\<forall>row \<in> set rows. \<forall>p \<in> set row. bgr2gray cv p = 0)"
  then show "process_frame cv s (Color rows) = Inr (Color (map (map (\<lambda>p. (0, 0, 0))) rows))"
    by (simp add: gray_threshold_pixels [OF m] cong: map_cong)
qed

text \<open>
  The theorem at the initial window after the threshold button (threshold 127): a white
  2 by 2 frame stays white, a black row stays black.
\<close>

theorem gray_threshold_strict_witness:
  "selected_mode (video_processor (enable_gray_threshold MainWindow_init)) = Some GrayThreshold
   \<and> threshold (video_processor (enable_gray_threshold MainWindow_init)) = 127
   \<and> bgr2gray cv_sample (255, 255, 255) = 255
   \<and> bgr2gray cv_sample (0, 0, 0) = 0
   \<and> process_frame cv_sample (video_processor (enable_gray_threshold MainWindow_init))
        (Color [[(255, 255, 255), (255, 255, 255)], [(255, 255, 255), (255, 255, 255)]])
      = Inr (Color [[(255, 255, 255), (255, 255, 255)], [(255, 255, 255), (255, 255, 255)]])
   \<and> process_frame cv_sample (video_processor (enable_gray_threshold MainWindow_init))
        (Color [[(0, 0, 0), (0, 0, 0)]])
      = Inr (Color [[(0, 0, 0), (0, 0, 0)]])"
  using
    gray_threshold_strict [of "video_processor (enable_gray_threshold MainWindow_init)" cv_sample
      "[[(255, 255, 255), (255, 255, 255)], [(255, 255, 255), (255, 255, 255)]]"]
    gray_threshold_strict [of "video_processor (enable_gray_threshold MainWindow_init)" cv_sample
      "[[(0, 0, 0), (0, 0, 0)]]"]
  by (simp add: selected_mode_cases enable_defs init_defs cv_sample_def luma_fixed_def)

text \<open>
  C1 as stated fails where the luminance equals the threshold: with the slider at 255, a
  white pixel has luminance 255, which is not below the threshold, and comes out black.
\<close>

theorem gray_threshold_at_255_counterexample:
  "uint (bgr2gray cv_sample (255, 255, 255)) \<ge> 255
   \<and> process_frame cv_sample
       (video_processor (set_threshold 255 (enable_gray_threshold MainWindow_init)))
       (Color [[(255, 255, 255)]])
     = Inr (Color [[(0, 0, 0)]])"
  by (simp add: cv_sample_def luma_fixed_def process_frame_def set_threshold_def
      enable_gray_threshold_def MainWindow_init_def VideoProcessor_init_def thresh_binary_255)

section \<open>No mode selected\<close>

text \<open>
  C2. With no mode selected, processing is the identity: \<^verbatim>\<open>process_frame\<close> returns the
  frame it was given, and a tick on an open device emits the frame that was read, both
  when processing is disabled and when it is enabled with no flag set.
\<close>

theorem mode_none_identity:
  "(selected_mode s = None \<longrightarrow> process_frame cv s frame = Inr frame)
   \<and> (cap s = Some c \<and> is_opened c \<and> (\<not> processing_enabled s \<or> selected_mode s = None) \<longrightarrow>
        update_frame cv (Some frame) s = Inr (Some frame))"
  by (auto simp: selected_mode_cases process_frame_def update_frame_def read_def
           split: if_splits)

theorem mode_none_identity_witness:
  "selected_mode (start_camera True 0 VideoProcessor_init) = None
   \<and> process_frame cv_sample (start_camera True 0 VideoProcessor_init)
        (Color [[(1, 2, 3), (4, 5, 6)]]) = Inr (Color [[(1, 2, 3), (4, 5, 6)]])
   \<and> cap (start_camera True 0 VideoProcessor_init) = Some (VideoCapture True 0)
   \<and> is_opened (VideoCapture True 0)
   \<and> update_frame cv_sample (Some (Color [[(1, 2, 3), (4, 5, 6)]]))
        (start_camera True 0 VideoProcessor_init) = Inr (Some (Color [[(1, 2, 3), (4, 5, 6)]]))"
  using mode_none_identity [of "start_camera True 0 VideoProcessor_init" cv_sample
      "Color [[(1, 2, 3), (4, 5, 6)]]" "VideoCapture True 0"]
  by (simp add: selected_mode_cases start_camera_def init_defs VideoCapture_def)

section \<open>Mode selection\<close>

text \<open>
  C3. Selecting a mode is exclusive: whatever the state of the window and whatever mode A
  was enabled before, after enabling A and then B the flag of a mode is set exactly when
  that mode is B (so B's flag is true and the three others are false), and processing is
  enabled.
\<close>

theorem enable_mutually_exclusive:
  "flag m (video_processor (enable B (enable A w))) = (m = B)
   \<and> processing_enabled (video_processor (enable B (enable A w)))"
  by (cases A; cases B; cases m)
     (simp_all add: enable_edge_detection_def enable_gray_threshold_def
        enable_face_detection_def enable_eye_detection_def)

section \<open>Detection without a region\<close>

text \<open>
  C4. In face-detection mode (respectively eye-detection mode), when the luminance
  conversion succeeds and the detector returns no region, \<^verbatim>\<open>process_frame\<close> returns the
  frame it was given: no rectangle is drawn and no pixel is changed.
\<close>

theorem detection_zero_regions_unchanged:
  "(selected_mode s = Some FaceDetection
      \<and> cvtColor cv frame COLOR_BGR2GRAY = Inr g
      \<and> detectMultiScale cv ''haarcascade_frontalface_default.xml'' g 4 = Inr [] \<longrightarrow>
    process_frame cv s frame = Inr frame)
   \<and> (selected_mode s = Some EyeDetection
      \<and> cvtColor cv frame COLOR_BGR2GRAY = Inr g
      \<and> detectMultiScale cv ''haarcascade_eye.xml'' g 5 = Inr [] \<longrightarrow>
    process_frame cv s frame = Inr frame)"
  by (auto simp: selected_mode_cases process_frame_def split: if_splits)

theorem detection_zero_regions_unchanged_witness:
  "selected_mode (video_processor (enable_face_detection MainWindow_init)) = Some FaceDetection
   \<and> cvtColor cv_sample (Color [[(9, 8, 7)]]) COLOR_BGR2GRAY = Inr (Gray [[8]])
   \<and> detectMultiScale cv_sample ''haarcascade_frontalface_default.xml'' (Gray [[8]]) 4 = Inr []
   \<and> process_frame cv_sample (video_processor (enable_face_detection MainWindow_init))
        (Color [[(9, 8, 7)]]) = Inr (Color [[(9, 8, 7)]])
   \<and> selected_mode (video_processor (enable_eye_detection MainWindow_init)) = Some EyeDetection
   \<and> detectMultiScale cv_sample ''haarcascade_eye.xml'' (Gray [[8]]) 5 = Inr []
   \<and> process_frame cv_sample (video_processor (enable_eye_detection MainWindow_init))
        (Color [[(9, 8, 7)]]) = Inr (Color [[(9, 8, 7)]])"
  using
    detection_zero_regions_unchanged [of "video_processor (enable_face_detection MainWindow_init)"
      cv_sample "Color [[(9, 8, 7)]]" "Gray [[8]]"]
    detection_zero_regions_unchanged [of "video_processor (enable_eye_detection MainWindow_init)"
      cv_sample "Color [[(9, 8, 7)]]" "Gray [[8]]"]
  by (simp add: selected_mode_cases enable_defs init_defs cv_sample_def luma_fixed_def)

section \<open>Stopping the camera\<close>

text \<open>
  C5. \<^verbatim>\<open>stop_camera\<close> has no failing path. On a processor that was never started (no
  capture object, timer not active) it changes nothing; calling it twice gives the state
  that calling it once gives; after it the timer is not active, so a timeout delivers no
  frame and leaves the window as it is.
\<close>

theorem stop_camera_idempotent:
  "(cap s = None \<and> \<not> timer_active s \<longrightarrow> stop_camera s = s)
   \<and> stop_camera (stop_camera s) = stop_camera s
   \<and> \<not> timer_active (stop_camera s)
   \<and> timer_timeout cv grabbed (stop_camera s) = Inr None
   \<and> tick cv grabbed (MainWindow_stop_camera w) = Inr (MainWindow_stop_camera w)"
  by (cases "cap s"; cases "cap (video_processor w)")
     (simp_all add: stop_camera_def timer_timeout_def release_def tick_def
        MainWindow_stop_camera_def)

theorem stop_camera_idempotent_witness:
  "cap VideoProcessor_init = None \<and> \<not> timer_active VideoProcessor_init
   \<and> stop_camera VideoProcessor_init = VideoProcessor_init
   \<and> stop_camera (stop_camera (start_camera True 0 VideoProcessor_init))
       = stop_camera (start_camera True 0 VideoProcessor_init)
   \<and> timer_timeout cv_sample (Some (Color [[(1, 2, 3)]])) (stop_camera VideoProcessor_init)
       = Inr None"
  using
    stop_camera_idempotent [of VideoProcessor_init cv_sample "Some (Color [[(1, 2, 3)]])"
      MainWindow_init]
    stop_camera_idempotent [of "start_camera True 0 VideoProcessor_init" cv_sample None
      MainWindow_init]
  by (simp add: init_defs stop_camera_def timer_timeout_def)

section \<open>A tick without a frame\<close>

text \<open>
  C6. In every reachable state of the window with the timer running, a tick on which the
  read yields no frame raises no error, emits no frame and leaves the whole window, the
  processor and its timer included, as it was: the next tick reads again.
\<close>

theorem skipped_tick:
  assumes "reachable cv w"
    and "timer_active (video_processor w)"
    and "\<forall>c. cap (video_processor w) = Some c \<longrightarrow> read c grabbed = None"
  shows "update_frame cv grabbed (video_processor w) = Inr None \<and> tick cv grabbed w = Inr w"
proof -
  from timer_has_cap [OF assms(1,2)] obtain c where c: "cap (video_processor w) = Some c"
    by auto
  with assms(3) have "read c grabbed = None" by simp
  with c assms(2) show ?thesis
    by (simp add: update_frame_def tick_def timer_timeout_def)
qed

theorem skipped_tick_witness:
  "reachable cv_sample (MainWindow_start_camera True MainWindow_init)
   \<and> timer_active (video_processor (MainWindow_start_camera True MainWindow_init))
   \<and> cap (video_processor (MainWindow_start_camera True MainWindow_init)) = Some (VideoCapture True 0)
   \<and> read (VideoCapture True 0) None = None
   \<and> update_frame cv_sample None (video_processor (MainWindow_start_camera True MainWindow_init))
       = Inr None
   \<and> tick cv_sample None (MainWindow_start_camera True MainWindow_init)
       = Inr (MainWindow_start_camera True MainWindow_init)"
proof -
  have r: "reachable cv_sample (MainWindow_start_camera True MainWindow_init)"
    by (rule reachable_step [OF reachable_init, of _ "StartCamera True"]) simp
  have t: "timer_active (video_processor (MainWindow_start_camera True MainWindow_init))"
    by (simp add: MainWindow_start_camera_def start_camera_def)
  have c: "cap (video_processor (MainWindow_start_camera True MainWindow_init))
             = Some (VideoCapture True 0)"
    by (simp add: MainWindow_start_camera_def start_camera_def)
  have n: "read (VideoCapture True 0) None = None"
    by (simp add: read_def)
  have "\<forall>c. cap (video_processor (MainWindow_start_camera True MainWindow_init)) = Some c
          \<longrightarrow> read c None = None"
    by (simp add: c n)
  from skipped_tick [OF r t this] r t c n show ?thesis by simp
qed

section \<open>A device that does not open\<close>

text \<open>
  C7, as the code has it. When the device does not open, \<^verbatim>\<open>start_camera\<close> shows no
  warning and raises no error, and it starts the timer (interval 30) all the same; every
  tick then reads nothing, so no frame is emitted and the window stays as it is.
\<close>

theorem device_unavailable_silent:
  "warnings (MainWindow_start_camera False w) = warnings w
   \<and> timer_active (video_processor (MainWindow_start_camera False w))
   \<and> timer_interval (video_processor (MainWindow_start_camera False w)) = 30
   \<and> update_frame cv grabbed (video_processor (MainWindow_start_camera False w)) = Inr None
   \<and> tick cv grabbed (MainWindow_start_camera False w) = Inr (MainWindow_start_camera False w)"
  by (simp add: MainWindow_start_camera_def start_camera_def VideoCapture_def
      update_frame_def read_def tick_def timer_timeout_def)

text \<open>
  C7 as stated fails on the initial window: after the start button with a device that
  does not open, no warning has been shown and the timer is running on a capture object
  that is not opened.
\<close>

theorem device_unavailable_counterexample:
  "warnings (MainWindow_start_camera False MainWindow_init) = []
   \<and> timer_active (video_processor (MainWindow_start_camera False MainWindow_init))
   \<and> cap (video_processor (MainWindow_start_camera False MainWindow_init))
       = Some \<lparr>camera = 0, is_opened = False\<rparr>"
  by (simp add: MainWindow_start_camera_def start_camera_def init_defs VideoCapture_def)

section \<open>Saving without a frame\<close>

text \<open>
  C8. When the label has no pixmap (no frame was ever displayed), \<^verbatim>\<open>save_frame\<close> shows
  the warning "No frame to save." and does nothing else: no file is written and the
  processor, with its capture and timer, is untouched.
\<close>

theorem save_without_frame:
  "label_pixmap w = None \<Longrightarrow>
   save_frame filename writable w = w\<lparr>warnings := warnings w @ [(''Error'', ''No frame to save.'')]\<rparr>
   \<and> files (save_frame filename writable w) = files w
   \<and> video_processor (save_frame filename writable w) = video_processor w"
  by (simp add: save_frame_def)

theorem save_without_frame_witness:
  "label_pixmap MainWindow_init = None
   \<and> warnings (save_frame ''out.png'' True MainWindow_init) = [(''Error'', ''No frame to save.'')]
   \<and> files (save_frame ''out.png'' True MainWindow_init) = []
   \<and> video_processor (save_frame ''out.png'' True MainWindow_init) = VideoProcessor_init"
  using save_without_frame [of MainWindow_init "''out.png''" True]
  by (simp add: init_defs)

section \<open>One filter per frame\<close>

text \<open>
  C9. Whatever the four flags are, \<^verbatim>\<open>process_frame\<close> applies the filter of one mode or
  none: the mode selected by the order edge detection, grayscale threshold, face
  detection, eye detection. A mode is selected exactly when its flag is set and no flag
  before it in that order is; the flags after it have no effect on the frame.
\<close>

theorem process_frame_priority:
  "process_frame cv s frame =
     (case selected_mode s of
        None \<Rightarrow> Inr frame
      | Some m \<Rightarrow> apply_filter cv (threshold s) m frame)
   \<and> (selected_mode s = Some EdgeDetection) = edge_detection_enabled s
   \<and> (selected_mode s = Some GrayThreshold) =
       (\<not> edge_detection_enabled s \<and> gray_threshold_enabled s)
   \<and> (selected_mode s = Some FaceDetection) =
       (\<not> edge_detection_enabled s \<and> \<not> gray_threshold_enabled s \<and> face_detection_enabled s)
   \<and> (selected_mode s = Some EyeDetection) =
       (\<not> edge_detection_enabled s \<and> \<not> gray_threshold_enabled s
        \<and> \<not> face_detection_enabled s \<and> eye_detection_enabled s)"
  by (simp add: process_frame_def selected_mode_cases)

section \<open>Restarting the camera\<close>

text \<open>
  C10. \<^verbatim>\<open>start_camera\<close> disables processing and leaves the four mode flags as they were.
  So the first frames after a start are emitted as read, whatever mode was selected
  before, while \<^verbatim>\<open>update_label\<close> still looks at the edge flag: with the flag left set, the
  three-channel frame goes to the gray-to-colour conversion, which rejects it; with the
  flag clear the frame is displayed with its channels reordered.
\<close>

theorem start_camera_keeps_flags:
  "\<not> processing_enabled (start_camera device_opens camera_id s)
   \<and> flag m (start_camera device_opens camera_id s) = flag m s
   \<and> update_frame cv (Some frame) (start_camera True camera_id s) = Inr (Some frame)
   \<and> update_label cv (Color rows) (w\<lparr>video_processor := start_camera device_opens camera_id s\<rparr>) =
       (if edge_detection_enabled s then Inl CvError
        else Inr (w\<lparr>video_processor := start_camera device_opens camera_id s,
                    label_pixmap := Some (map (map (\<lambda>(b, g, r). (r, g, b))) rows)\<rparr>))"
  by (cases m) (simp_all add: start_camera_def update_frame_def read_def VideoCapture_def
      update_label_def)

end
